theory Spec2Isabelle
  imports Complex_Main
begin

section \<open>Values of the host language\<close>

text \<open>
  A JavaScript number is either a numeric value or NaN. The component only passes
  numbers on, tests them for truthiness and divides a slider value by 100, so numeric
  values are taken as reals; the infinities are left out.
\<close>

datatype number = Num real | NaN

fun truthy_number :: "number \<Rightarrow> bool" where
  "truthy_number (Num r) = (r \<noteq> 0)"
| "truthy_number NaN = False"


text \<open>
  The props \<open>data\<close> and \<open>toggleVisibility\<close> are typed \<open>any\<close>: they hold an arbitrary
  JSON-like value.
\<close>

datatype jsvalue =
    Undefined
  | Null
  | Bool bool
  | Number number
  | String string
  | Array "jsvalue list"
  | Object "(string \<times> jsvalue) list"

text \<open>The operand test of \<open>!v\<close>, \<open>v && ...\<close> and \<open>if (v)\<close>.\<close>

fun truthy :: "jsvalue \<Rightarrow> bool" where
  "truthy Undefined = False"
| "truthy Null = False"
| "truthy (Bool b) = b"
| "truthy (Number n) = truthy_number n"
| "truthy (String s) = (s \<noteq> [])"
| "truthy (Array xs) = True"
| "truthy (Object kvs) = True"

text \<open>
  Property read \<open>v.k\<close> for the keys \<open>name\<close> and \<open>contents\<close>: an object (its keys
  are distinct) yields the stored value or \<open>undefined\<close>; booleans, numbers, strings and arrays have no such
  property and yield \<open>undefined\<close>. On \<open>undefined\<close> and \<open>null\<close> the read would raise a
  TypeError; the component guards every read by a truthiness test of \<open>v\<close> first, so that
  case is never evaluated and is given \<open>Undefined\<close> here.
\<close>

fun getprop :: "jsvalue \<Rightarrow> string \<Rightarrow> jsvalue" where
  "getprop (Object kvs) k = (case map_of kvs k of None \<Rightarrow> Undefined | Some v \<Rightarrow> v)"
| "getprop v k = Undefined"

datatype Vector3 = Vector3 (vx: number) (vy: number) (vz: number)

datatype Quaternion = Quaternion (qx: number) (qy: number) (qz: number) (qw: number)

text \<open>
  A JavaScript string as its UTF-16 code units, for the text that is handed to \<open>btoa\<close>:
  \<open>btoa\<close> accepts only code units up to 255.
\<close>

type_synonym jsstring = "nat list"

text \<open>
  An object held by reference. React compares the entries of a dependency array with
  \<open>Object.is\<close>, so for an object that stands in one, the reference counts and not the
  content.
\<close>

type_synonym ref = nat

datatype 'a obj = Obj (obj_ref: ref) (obj_value: 'a)

section \<open>Camera state and props\<close>

record CameraState =
  quaternion :: "Quaternion option"
  position :: "Vector3 obj option"
  zoom :: "number option"
  setByComponentId :: "string option"
  following :: "bool option"

record ImageRequest =
  filetype :: "string option"

text \<open>The props the modelled effects read (the remaining ones only reach the layout).\<close>

record Props =
  debug :: "bool option"
  data :: jsvalue
  toggleVisibility :: jsvalue
  imageRequest :: ImageRequest
  animation :: "string option"
  currentCameraState :: "CameraState option"
  customCameraState :: "CameraState obj option"

text \<open>The payload of a \<open>NEW_POSITION\<close> action sent to the camera bus.\<close>

datatype CameraActionPayload =
  CameraActionPayload (payload_componentId: string) (payload_position: Vector3)
    (payload_quaternion: Quaternion) (payload_zoom: "number option")

datatype CameraAction = NEW_POSITION CameraActionPayload

text \<open>
  The two places the camera state can live: the shared context of a
  \<open>CameraContextProvider\<close>, or the reducer local to the component. A context value
  need not carry a dispatch function; the component tests for it.
\<close>

datatype bus = SharedContext | LocalReducer

record CameraContext =
  state :: "CameraState option"
  dispatch :: "bus option"

section \<open>Observable calls\<close>

text \<open>The two shapes of object handed to \<open>setProps\<close>.\<close>

datatype propsUpdate =
    ImageData string number
  | WithCurrentCameraState Props CameraState

text \<open>An argument of \<open>console.log\<close>: a text, or the text a Collada export produced.\<close>

datatype logged = Text string | Exported jsstring

text \<open>
  Every call the component makes on its collaborators (the Scene object, the owner's
  \<open>setProps\<close>, the camera bus, the console, the download-event subscription), in the
  order made.
\<close>

datatype call =
    AddToScene jsvalue bool
  | ToggleVisibility jsvalue
  | UpdateCamera Vector3 Quaternion "number option"
  | UpdateTime number
  | RenderScene
  | SetPixelRatio number
  | OnDestroy
  | Unsubscribe
  | SetProps propsUpdate
  | CameraDispatch bus CameraAction
  | ConsoleWarn string jsvalue
  | ConsoleLog "logged list"

fun is_UpdateCamera :: "call \<Rightarrow> bool" where
  "is_UpdateCamera (UpdateCamera p q z) = True"
| "is_UpdateCamera c = False"

fun is_SetProps :: "call \<Rightarrow> bool" where
  "is_SetProps (SetProps u) = True"
| "is_SetProps c = False"

section \<open>One mounted component\<close>

datatype rendererKind = WebGLRenderer | SVGRenderer

text \<open>What the render surface shows: a scene graph drawn at a pixel ratio.\<close>

datatype 'g frame = Frame 'g number

text \<open>
  Callbacks handed to the host and not yet run: the restore step given to
  \<open>setTimeout\<close> (it captured \<open>oldRatio\<close>), the completion callback given to
  \<open>toDataUrl\<close> (the converter later calls it with the encoded image), and the
  \<open>onDone\<close> callback given to the Collada exporter (the exporter calls it with its
  result on a later animation frame).
\<close>

datatype task = RestorePixelRatio number | DataUrlCallback string | ColladaDone jsstring

text \<open>
  What React remembers of a \<open>useEffect\<close> call between two runs of the component
  function: nothing before the first run; that the call was left out; or the dependency
  the call was made with (the reference of an object, or \<open>undefined\<close>).
\<close>

datatype hook_slot = NotRendered | HookSkipped | HookCalled "ref option"

text \<open>
  The state of one mounted component: its refs and props, the camera bus it sees, what
  React remembers of the two camera effects, the fields of its Scene object that the
  export code reads and writes (\<open>renderer\<close>, which is gone once the Scene is
  destroyed, the renderer's pixel ratio, the live \<open>scene\<close> graph, the surface
  \<open>domElement\<close>), its subscription, the pending callbacks and the calls made so far.
\<close>

record 'g component =
  componentId :: string
  props :: Props
  cameraContext :: "CameraContext option"
  cameraReducerState :: "CameraState option"
  cameraHook :: hook_slot
  customHook :: hook_slot
  renderer :: "rendererKind option"
  pixelRatio :: number
  scene :: "'g"
  domElement :: "'g frame option"
  subscribed :: bool
  pending :: "task list"
  calls :: "call list"

definition emit :: "call list \<Rightarrow> 'g component \<Rightarrow> 'g component" where
  "emit cs s = s\<lparr>calls := calls s @ cs\<rparr>"

text \<open>The calls a step added to the log.\<close>

definition new_calls :: "'g component \<Rightarrow> 'g component \<Rightarrow> call list" where
  "new_calls s s' = drop (length (calls s)) (calls s')"

section \<open>Errors\<close>

text \<open>
  What can be thrown: an \<open>Error\<close> with its message, a \<open>TypeError\<close> (a member read
  on \<open>null\<close>), the \<open>InvalidCharacterError\<close> of \<open>btoa\<close>, and React's error on a
  changed number of hook calls. A call that throws returns \<open>Inl\<close> of the error and of
  the component as the throw leaves it.
\<close>

datatype error = Error string | TypeError | InvalidCharacterError | HookOrderError

type_synonym 'g result = "(error \<times> 'g component) + 'g component"

text \<open>The component after a call, whether the call returned or threw.\<close>

definition after :: "'g result \<Rightarrow> 'g component" where
  "after r = (case r of Inl (e, s) \<Rightarrow> s | Inr s \<Rightarrow> s)"

section \<open>Teardown\<close>

text \<open>
  Modelled from the spec: \<open>Scene.onDestroy\<close>, whose body is not in the sources at hand.
  Teardown releases all objects the Scene owns: afterwards the Scene has no renderer and
  no render surface. The cleanup of the mount effect unsubscribes from the download
  event and then calls \<open>onDestroy\<close>.
\<close>

definition unmount :: "'g component \<Rightarrow> 'g component" where
  "unmount s =
     emit [Unsubscribe, OnDestroy] (s\<lparr>subscribed := False, renderer := None, domElement := None\<rparr>)"

text \<open>
  An error that leaves the component function or one of its effects is caught nowhere
  inside the component: React unmounts the component, which runs the cleanup of the
  mount effect.
\<close>

definition uncaught :: "error \<Rightarrow> 'g component \<Rightarrow> 'g result" where
  "uncaught e s = Inl (e, unmount s)"

section \<open>Camera synchronisation\<close>

text \<open>
  \<open>cameraState = cameraContext ? cameraContext.state : cameraReducerState\<close> and
  \<open>cameraDispatch = cameraContext ? cameraContext.dispatch : cameraReducerDispatch\<close>.
\<close>

definition cameraState :: "'g component \<Rightarrow> CameraState option" where
  "cameraState s =
     (case cameraContext s of Some ctx \<Rightarrow> state ctx | None \<Rightarrow> cameraReducerState s)"

definition cameraDispatch :: "'g component \<Rightarrow> bus option" where
  "cameraDispatch s =
     (case cameraContext s of Some ctx \<Rightarrow> dispatch ctx | None \<Rightarrow> Some LocalReducer)"

definition zoom_truthy :: "number option \<Rightarrow> bool" where
  "zoom_truthy z = (case z of None \<Rightarrow> False | Some n \<Rightarrow> truthy_number n)"

text \<open>
  The callback that lines 336 to 348 hand to \<open>useEffect\<close>: what one run of the effect
  on the camera state of the bus does. When React runs it is \<open>cameraStateHook\<close> below.
\<close>

definition cameraStateEffect :: "'g component \<Rightarrow> 'g component" where
  "cameraStateEffect s =
     (case cameraState s of
        None \<Rightarrow> s
      | Some cs \<Rightarrow>
          let s1 = emit [SetProps (WithCurrentCameraState (props s) cs)] s in
          if setByComponentId cs \<noteq> Some (componentId s)
             \<and> position cs \<noteq> None \<and> quaternion cs \<noteq> None \<and> zoom_truthy (zoom cs)
          then emit [UpdateCamera (obj_value (the (position cs))) (the (quaternion cs)) (zoom cs)] s1
          else s1)"

text \<open>
  \<open>if (cameraState) { useEffect(..., [cameraState.position]) }\<close> in one run of the
  component function, with the effect flushed. React runs the effect after the first
  run and after a run in which \<open>cameraState.position\<close> is not the same (by
  \<open>Object.is\<close>) as in the run before. The call stands under a condition: a run that
  makes it after a run that left it out, or leaves it out after a run that made it,
  changes the number of hook calls, at which React throws.
\<close>

definition cameraStateHook :: "'g component \<Rightarrow> 'g result" where
  "cameraStateHook s =
     (case cameraState s of
        None \<Rightarrow>
          (case cameraHook s of
             HookCalled d \<Rightarrow> uncaught HookOrderError s
           | _ \<Rightarrow> Inr (s\<lparr>cameraHook := HookSkipped\<rparr>))
      | Some cs \<Rightarrow>
          let dep = map_option obj_ref (position cs) in
          (case cameraHook s of
             NotRendered \<Rightarrow> Inr (cameraStateEffect (s\<lparr>cameraHook := HookCalled dep\<rparr>))
           | HookSkipped \<Rightarrow> uncaught HookOrderError s
           | HookCalled d \<Rightarrow>
               if d = dep then Inr s
               else Inr (cameraStateEffect (s\<lparr>cameraHook := HookCalled dep\<rparr>))))"

text \<open>
  \<open>new THREE.Vector3(p?.x, p?.y, p?.z)\<close> and
  \<open>new THREE.Quaternion(q?.x, q?.y, q?.z, q?.w)\<close>: an absent object gives the
  constructors' defaults, the zero vector and the identity quaternion.
\<close>

definition toVector3 :: "Vector3 option \<Rightarrow> Vector3" where
  "toVector3 p =
     (case p of None \<Rightarrow> Vector3 (Num 0) (Num 0) (Num 0)
      | Some v \<Rightarrow> Vector3 (vx v) (vy v) (vz v))"

definition toQuaternion :: "Quaternion option \<Rightarrow> Quaternion" where
  "toQuaternion q =
     (case q of None \<Rightarrow> Quaternion (Num 0) (Num 0) (Num 0) (Num 1)
      | Some v \<Rightarrow> Quaternion (qx v) (qy v) (qz v) (qw v))"

text \<open>
  The callback that lines 356 to 380 hand to \<open>useEffect\<close>: one run of the effect on
  the \<open>customCameraState\<close> prop.
\<close>

definition customCameraStateEffect :: "'g component \<Rightarrow> 'g component" where
  "customCameraStateEffect s =
     (let s3 =
        (case customCameraState (props s) of
           None \<Rightarrow> s
         | Some held \<Rightarrow>
             let c = obj_value held;
                 q = toQuaternion (quaternion c);
                 p = toVector3 (map_option obj_value (position c));
                 s1 = emit [UpdateCamera p q (zoom c)] s
             in (case cameraDispatch s of
                   None \<Rightarrow> s1
                 | Some b \<Rightarrow>
                     emit [CameraDispatch b
                            (NEW_POSITION (CameraActionPayload (componentId s) p q (zoom c)))] s1))
      in emit [ConsoleLog [Text ''new props'']] s3)"

text \<open>
  \<open>useEffect(..., [props.customCameraState])\<close> in one run of the component function,
  with the effect flushed: React runs the effect after the first run and after a run in
  which the prop is not the same object as in the run before.
\<close>

definition customCameraStateHook :: "'g component \<Rightarrow> 'g component" where
  "customCameraStateHook s =
     (let dep = map_option obj_ref (customCameraState (props s)) in
      if customHook s = HookCalled dep then s
      else customCameraStateEffect (s\<lparr>customHook := HookCalled dep\<rparr>))"

section \<open>The Scene object and the platform\<close>

text \<open>
  Functions of the platform and of libraries that the export code calls:
  \<open>canvas.toDataURL('image/png')\<close> on the render surface, the image that
  \<open>svgtodatauri\<close> computes from the surface, the document text
  \<open>new ColladaExporter().parse(scene).data\<close>, and the base64 text that \<open>btoa\<close>
  gives for a string it accepts. The bodies of \<open>Scene.addToScene\<close> and
  \<open>Scene.toggleVisibility\<close> are not part of the sources at hand; the graph they leave
  behind is a parameter as well.
\<close>

record 'g env =
  toDataURL :: "'g frame option \<Rightarrow> string"
  svgToDataUrl :: "'g frame option \<Rightarrow> string"
  colladaParse :: "'g \<Rightarrow> jsstring"
  base64 :: "jsstring \<Rightarrow> string"
  addToScene_graph :: "jsvalue \<Rightarrow> 'g \<Rightarrow> 'g"
  toggleVisibility_graph :: "jsvalue \<Rightarrow> 'g \<Rightarrow> 'g"

text \<open>
  \<open>btoa(t)\<close>: the base64 text of \<open>t\<close> if every code unit of \<open>t\<close> is at most 255;
  otherwise it throws an \<open>InvalidCharacterError\<close>.
\<close>

definition btoa :: "'g env \<Rightarrow> jsstring \<Rightarrow> error + string" where
  "btoa E t = (if list_all (\<lambda>c. c \<le> 255) t then Inr (base64 E t) else Inl InvalidCharacterError)"

text \<open>\<open>renderer.setPixelRatio(r)\<close>; \<open>renderer.getPixelRatio()\<close> is the field \<open>pixelRatio\<close>.\<close>

definition setPixelRatio :: "number \<Rightarrow> 'g component \<Rightarrow> 'g component" where
  "setPixelRatio r s = emit [SetPixelRatio r] (s\<lparr>pixelRatio := r\<rparr>)"

text \<open>
  Modelled from the spec: \<open>Scene.renderScene\<close>, whose body is not in the sources at hand.
  It draws the live scene graph on the render surface at the renderer's current pixel
  density.
\<close>

definition renderScene :: "'g component \<Rightarrow> 'g component" where
  "renderScene s = emit [RenderScene] (s\<lparr>domElement := Some (Frame (scene s) (pixelRatio s))\<rparr>)"

definition addToScene :: "'g env \<Rightarrow> jsvalue \<Rightarrow> bool \<Rightarrow> 'g component \<Rightarrow> 'g component" where
  "addToScene E sceneJson bypassRendering s =
     emit [AddToScene sceneJson bypassRendering] (s\<lparr>scene := addToScene_graph E sceneJson (scene s)\<rparr>)"

definition sceneToggleVisibility :: "'g env \<Rightarrow> jsvalue \<Rightarrow> 'g component \<Rightarrow> 'g component" where
  "sceneToggleVisibility E namesToVisibility s =
     emit [ToggleVisibility namesToVisibility]
       (s\<lparr>scene := toggleVisibility_graph E namesToVisibility (scene s)\<rparr>)"

section \<open>The effect on the scene document\<close>

definition no_data_warning :: string where
  "no_data_warning = ''no data passed ( or missing name /content ), scene will not be updated''"

definition dataEffect :: "'g env \<Rightarrow> 'g component \<Rightarrow> 'g component" where
  "dataEffect E s =
     (let d = data (props s) in
      if \<not> truthy d \<or> \<not> truthy (getprop d ''name'') \<or> \<not> truthy (getprop d ''contents'')
      then emit [ConsoleWarn no_data_warning d] s
      else
        let s1 = (if truthy d then addToScene E d True s else s)
        in sceneToggleVisibility E (toggleVisibility (props s)) s1)"

section \<open>Export\<close>

text \<open>
  Handing a callback to the host (\<open>setTimeout\<close>, the image converter, the exporter's
  animation-frame request): it joins the pending callbacks. The handle that
  \<open>setTimeout\<close> returns is dropped by the caller, so nothing can cancel it later.
\<close>

definition schedule :: "task \<Rightarrow> 'g component \<Rightarrow> 'g component" where
  "schedule t s = s\<lparr>pending := pending s @ [t]\<rparr>"

text \<open>
  \<open>setPngData\<close>; \<open>now\<close> is what \<open>Date.now()\<close> returns during the call. On the SVG
  renderer the converter reads the surface when called and hands the image to the
  callback later. On a destroyed Scene the renderer is \<open>null\<close>: the test
  \<open>instanceof WebGLRenderer\<close> fails, \<open>renderScene()\<close> is called and the export ends
  in a \<open>TypeError\<close>, at the latest at the read of \<open>renderer.domElement\<close>.
\<close>

definition setPngData :: "'g env \<Rightarrow> number \<Rightarrow> 'g component \<Rightarrow> 'g result" where
  "setPngData E now s =
     (if renderer s = Some WebGLRenderer then
        let oldRatio = pixelRatio s;
            s1 = setPixelRatio (Num 8) s;
            s2 = renderScene s1;
            imageData = toDataURL E (domElement s2);
            s3 = emit [SetProps (ImageData imageData now)] s2
        in Inr (schedule (RestorePixelRatio oldRatio) s3)
      else
        (case renderer s of
           None \<Rightarrow> Inl (TypeError, emit [RenderScene] s)
         | Some k \<Rightarrow>
             let s1 = renderScene s
             in Inr (schedule (DataUrlCallback (svgToDataUrl E (domElement s1))) s1)))"

text \<open>
  \<open>setColladaData\<close>: the exporter has produced its text and asked for the animation
  frame of its \<open>onDone\<close> callback when \<open>btoa\<close> is called; if \<open>btoa\<close> throws, the
  statements after it, \<open>setProps\<close> among them, are not reached.
\<close>

definition setColladaData :: "'g env \<Rightarrow> number \<Rightarrow> 'g component \<Rightarrow> 'g result" where
  "setColladaData E now s =
     (let files_data = colladaParse E (scene s);
          s1 = schedule (ColladaDone files_data) s
      in case btoa E files_data of
           Inl e \<Rightarrow> Inl (e, s1)
         | Inr encoded \<Rightarrow>
             Inr (emit [SetProps (ImageData (''data:text/plain;base64,'' @ encoded) now)] s1))"

definition requestImage :: "'g env \<Rightarrow> number \<Rightarrow> string \<Rightarrow> 'g component \<Rightarrow> 'g result" where
  "requestImage E now ft s =
     (if ft = ''png'' then setPngData E now s
      else if ft = ''dae'' then setColladaData E now s
      else Inl (Error ''Unknown filetype.'', s))"

text \<open>
  The effect on the \<open>imageRequest\<close> prop. An error that \<open>requestImage\<close> throws leaves
  the effect.
\<close>

definition imageRequestEffect :: "'g env \<Rightarrow> number \<Rightarrow> 'g component \<Rightarrow> 'g result" where
  "imageRequestEffect E now s =
     (case filetype (imageRequest (props s)) of
        None \<Rightarrow> Inr s
      | Some ft \<Rightarrow>
          if ft \<noteq> [] then
            (case requestImage E now ft s of
               Inl (e, s') \<Rightarrow> uncaught e s'
             | Inr s' \<Rightarrow> Inr s')
          else Inr s)"

section \<open>Pending callbacks\<close>

text \<open>
  Modelled from the spec: the download-event module, which is not in the sources at hand.
  A subscriber is called with each event until it unsubscribes; the subscriber here is
  \<open>({ filetype }) => requestImage(filetype, _s)\<close>.
\<close>

definition downloadEvent :: "'g env \<Rightarrow> number \<Rightarrow> string \<Rightarrow> 'g component \<Rightarrow> 'g result" where
  "downloadEvent E now ft s = (if subscribed s then requestImage E now ft s else Inr s)"

text \<open>
  The bodies of the callbacks, as written: none of them tests whether the component is
  still mounted. The restore step reads \<open>sceneComponent.renderer.setPixelRatio\<close>, which
  is a \<open>TypeError\<close> once the renderer is gone.
\<close>

fun run_task :: "number \<Rightarrow> task \<Rightarrow> 'g component \<Rightarrow> 'g result" where
  "run_task now (RestorePixelRatio oldRatio) s =
     (case renderer s of
        None \<Rightarrow> Inl (TypeError, s)
      | Some k \<Rightarrow> Inr (renderScene (setPixelRatio oldRatio s)))"
| "run_task now (DataUrlCallback imageData) s = Inr (emit [SetProps (ImageData imageData now)] s)"
| "run_task now (ColladaDone r) s = Inr (emit [ConsoleLog [Text ''result'', Exported r]] s)"

text \<open>The host runs a pending callback, the oldest first.\<close>

definition fire :: "number \<Rightarrow> 'g component \<Rightarrow> 'g result" where
  "fire now s =
     (case pending s of [] \<Rightarrow> Inr s | t # ts \<Rightarrow> run_task now t (s\<lparr>pending := ts\<rparr>))"

section \<open>Layout and the animation slider\<close>




section \<open>Component identities\<close>

text \<open>
  \<open>ID_GENERATOR\<close> is a JavaScript number holding an integer. \<open>++\<close> adds one exactly
  below \<open>2 ^ 53\<close>; at \<open>2 ^ 53\<close> the sum rounds back to \<open>2 ^ 53\<close>.
\<close>

definition pre_increment :: "nat \<Rightarrow> nat" where
  "pre_increment n = (if n < 2 ^ 53 then n + 1 else n)"

text \<open>\<open>toString()\<close> of a non-negative integer below \<open>10 ^ 21\<close>: its decimal digits.\<close>

definition digit :: "nat \<Rightarrow> char" where
  "digit d = char_of (48 + d)"

fun toString :: "nat \<Rightarrow> string" where
  "toString n = (if n < 10 then [digit n] else toString (n div 10) @ [digit (n mod 10)])"

text \<open>
  The module: the counter and, for every mounted component (named by a key), the value
  of its \<open>componentId\<close> ref.
\<close>

record module_state =
  ID_GENERATOR :: nat
  componentIds :: "nat \<Rightarrow> string option"

definition initial_module :: module_state where
  "initial_module = \<lparr>ID_GENERATOR = 0, componentIds = (\<lambda>k. None)\<rparr>"

text \<open>
  One run of the component function for the component \<open>k\<close>:
  \<open>useRef((++ID_GENERATOR).toString())\<close> evaluates its argument on every run and keeps
  the ref of the first run.
\<close>

definition render_component :: "nat \<Rightarrow> module_state \<Rightarrow> module_state" where
  "render_component k m =
     (let g = pre_increment (ID_GENERATOR m);
          initialValue = toString g
      in m\<lparr>ID_GENERATOR := g,
            componentIds :=
              (case componentIds m k of
                 None \<Rightarrow> (componentIds m)(k := Some initialValue)
               | Some r \<Rightarrow> componentIds m)\<rparr>)"

definition unmount_component :: "nat \<Rightarrow> module_state \<Rightarrow> module_state" where
  "unmount_component k m = m\<lparr>componentIds := (componentIds m)(k := None)\<rparr>"

datatype react_event = Render nat | Unmount nat

fun react_step :: "module_state \<Rightarrow> react_event \<Rightarrow> module_state" where
  "react_step m (Render k) = render_component k m"
| "react_step m (Unmount k) = unmount_component k m"

definition run_events :: "react_event list \<Rightarrow> module_state" where
  "run_events evs = foldl react_step initial_module evs"

text \<open>
  The number of mounts in a sequence of events that starts in the module state \<open>m\<close>: a
  mount is a run of the component function for a component that holds no ref yet.
\<close>

fun mounts :: "module_state \<Rightarrow> react_event list \<Rightarrow> nat" where
  "mounts m [] = 0"
| "mounts m (e # es) =
     (case e of
        Render k \<Rightarrow> (if componentIds m k = None then 1 else 0) + mounts (react_step m e) es
      | Unmount k \<Rightarrow> mounts (react_step m e) es)"

section \<open>Properties of the component identities\<close>

text \<open>The number of runs of the component function in a sequence of events.\<close>

fun renders :: "react_event list \<Rightarrow> nat" where
  "renders [] = 0"
| "renders (Render k # es) = Suc (renders es)"
| "renders (Unmount k # es) = renders es"

text \<open>No two mounted components hold the same \<open>componentId\<close>.\<close>

definition ids_distinct :: "module_state \<Rightarrow> bool" where
  "ids_distinct m =
     (\<forall>j k. j \<noteq> k \<longrightarrow> componentIds m j \<noteq> None \<longrightarrow> componentIds m j \<noteq> componentIds m k)"

text \<open>Every \<open>componentId\<close> is the decimal string of a value the counter has had.\<close>

definition ids_from_counter :: "module_state \<Rightarrow> bool" where
  "ids_from_counter m =
     (\<forall>k r. componentIds m k = Some r
        \<longrightarrow> (\<exists>n. 1 \<le> n \<and> n \<le> ID_GENERATOR m \<and> r = toString n))"

section \<open>Example inputs\<close>

text \<open>
  A platform whose encoders tell a surface drawn at pixel ratio 8 from any other, and
  whose Collada exporter writes the text \<open>scene\<close> for every graph but graph 2, for
  which it writes a text with the Greek letter alpha (code unit 945) in it. A component
  with id \<open>1\<close> on the WebGL renderer at pixel ratio 1, with no shared camera context,
  before its first run.
\<close>

definition example_env :: "nat env" where
  "example_env =
     \<lparr>toDataURL = (\<lambda>f. case f of None \<Rightarrow> ''blank''
                          | Some (Frame g r) \<Rightarrow> if r = Num 8 then ''png-at-8'' else ''png''),
      svgToDataUrl = (\<lambda>f. ''svg-as-png''),
      colladaParse = (\<lambda>g. if g = 2 then [60, 945, 62] else [115, 99, 101, 110, 101]),
      base64 = (\<lambda>t. if t = [115, 99, 101, 110, 101] then ''c2NlbmU='' else ''PD4=''),
      addToScene_graph = (\<lambda>d g. Suc g),
      toggleVisibility_graph = (\<lambda>d g. g)\<rparr>"

definition example_props :: Props where
  "example_props =
     \<lparr>debug = None, data = Undefined, toggleVisibility = Undefined,
      imageRequest = \<lparr>filetype = None\<rparr>, animation = None,
      currentCameraState = None, customCameraState = None\<rparr>"

definition example_component :: "nat component" where
  "example_component =
     \<lparr>componentId = ''1'', props = example_props, cameraContext = None,
      cameraReducerState = None, cameraHook = NotRendered, customHook = NotRendered,
      renderer = Some WebGLRenderer, pixelRatio = Num 1,
      scene = 1, domElement = Some (Frame 1 (Num 1)), subscribed = True,
      pending = [], calls = []\<rparr>"

text \<open>A camera state written by the component with id \<open>2\<close>, and the same written by \<open>1\<close>.\<close>

definition example_state :: CameraState where
  "example_state =
     \<lparr>quaternion = Some (Quaternion (Num 0) (Num 0) (Num 0) (Num 1)),
      position = Some (Obj 7 (Vector3 (Num 1) (Num 2) (Num 3))),
      zoom = Some (Num 2), setByComponentId = Some ''2'', following = Some True\<rparr>"

definition own_state :: CameraState where
  "own_state = example_state\<lparr>setByComponentId := Some ''1''\<rparr>"

definition zoomless_state :: CameraState where
  "zoomless_state = example_state\<lparr>zoom := Some (Num 0)\<rparr>"

text \<open>
  A component whose effect has run on a bus state without a position, and which now
  sees another state without a position, written by the component with id \<open>2\<close>.
\<close>

definition positionless_state :: CameraState where
  "positionless_state = example_state\<lparr>position := None\<rparr>"

definition waiting_component :: "nat component" where
  "waiting_component =
     example_component\<lparr>cameraReducerState := Some positionless_state,
       cameraHook := HookCalled None\<rparr>"

text \<open>
  A custom camera state with a position, a quaternion that is not the identity and a
  zoom; a component that gets it inside a shared camera context, and one inside a
  context that carries no dispatch function.
\<close>

definition custom_state :: CameraState where
  "custom_state =
     \<lparr>quaternion = Some (Quaternion (Num 1) (Num 0) (Num 0) (Num 0)),
      position = Some (Obj 8 (Vector3 (Num 4) (Num 5) (Num 6))),
      zoom = Some (Num 3), setByComponentId = None, following = None\<rparr>"

definition shared_component :: "nat component" where
  "shared_component =
     example_component\<lparr>props := example_props\<lparr>customCameraState := Some (Obj 9 custom_state)\<rparr>,
       cameraContext := Some \<lparr>state = Some example_state, dispatch = Some SharedContext\<rparr>\<rparr>"

definition undispatched_component :: "nat component" where
  "undispatched_component =
     example_component\<lparr>props := example_props\<lparr>customCameraState := Some (Obj 9 custom_state)\<rparr>,
       cameraContext := Some \<lparr>state = Some example_state, dispatch = None\<rparr>\<rparr>"

text \<open>A document with both top-level fields, the name being the empty string.\<close>

definition unnamed_document :: jsvalue where
  "unnamed_document = Object [(''name'', String []), (''contents'', Array [])]"

definition named_document :: jsvalue where
  "named_document = Object [(''name'', String ''root''), (''contents'', Array [])]"

definition named_component :: "nat component" where
  "named_component =
     example_component\<lparr>props := example_props\<lparr>data := named_document,
        toggleVisibility := Object [(''atoms'', Number (Num 0))]\<rparr>\<rparr>"

definition unnamed_component :: "nat component" where
  "unnamed_component = example_component\<lparr>props := example_props\<lparr>data := unnamed_document\<rparr>\<rparr>"

text \<open>A value is absent when it is \<open>undefined\<close> or \<open>null\<close>.\<close>

definition absent :: "jsvalue \<Rightarrow> bool" where
  "absent v = (v = Undefined \<or> v = Null)"

text \<open>A component whose \<open>imageRequest\<close> prop asks for the filetype \<open>gltf\<close>.\<close>

definition gltf_component :: "nat component" where
  "gltf_component =
     example_component\<lparr>props := example_props\<lparr>imageRequest := \<lparr>filetype = Some ''gltf''\<rparr>\<rparr>\<rparr>"

text \<open>
  Two \<open>png\<close> exports asked for one after the other, before the host runs a pending
  callback; then the host runs the two restore steps.
\<close>

definition two_exports :: "nat component" where
  "two_exports =
     after (requestImage example_env (Num 5) ''png''
       (after (requestImage example_env (Num 5) ''png'' example_component)))"

definition two_exports_restored :: "nat component" where
  "two_exports_restored = after (fire (Num 6) (after (fire (Num 6) two_exports)))"

text \<open>A component whose live graph holds an object named with the letter alpha.\<close>

definition alpha_component :: "nat component" where
  "alpha_component = example_component\<lparr>scene := 2\<rparr>"

text \<open>A \<open>png\<close> export, and then the teardown of the component.\<close>

definition exported_then_unmounted :: "nat component" where
  "exported_then_unmounted =
     unmount (after (requestImage example_env (Num 5) ''png'' example_component))"

text \<open>
  Component 0 is mounted and rendered once more, then component 1 is mounted.
\<close>

definition example_events :: "react_event list" where
  "example_events = [Render 0, Render 0, Render 1]"

declare toString.simps [simp del]

section \<open>The call log\<close>

lemma calls_emit: "calls (emit cs s) = calls s @ cs"
  by (simp add: emit_def)

lemma new_calls_append: "calls s' = calls s @ cs \<Longrightarrow> new_calls s s' = cs"
  by (simp add: new_calls_def)

section \<open>Camera synchronisation: loop prevention\<close>

lemma calls_cameraStateEffect:
  "cameraState s = Some cs \<Longrightarrow>
   calls (cameraStateEffect s) =
     calls s @ SetProps (WithCurrentCameraState (props s) cs) #
       (if setByComponentId cs \<noteq> Some (componentId s)
           \<and> position cs \<noteq> None \<and> quaternion cs \<noteq> None \<and> zoom_truthy (zoom cs)
        then [UpdateCamera (obj_value (the (position cs))) (the (quaternion cs)) (zoom cs)] else [])"
  by (simp add: cameraStateEffect_def Let_def calls_emit)

lemma example_cameraState:
  "cameraState (example_component\<lparr>cameraReducerState := Some cs\<rparr>) = Some cs"
  by (simp add: cameraState_def example_component_def)

lemma example_calls_other:
  "new_calls (example_component\<lparr>cameraReducerState := Some example_state\<rparr>)
     (cameraStateEffect (example_component\<lparr>cameraReducerState := Some example_state\<rparr>))
   = [SetProps (WithCurrentCameraState example_props example_state),
      UpdateCamera (Vector3 (Num 1) (Num 2) (Num 3))
        (Quaternion (Num 0) (Num 0) (Num 0) (Num 1)) (Some (Num 2))]"
  by (rule new_calls_append, subst calls_cameraStateEffect [OF example_cameraState])
     (simp add: example_component_def example_state_def zoom_truthy_def)

text \<open>
  C1. Whatever camera state \<open>cs\<close> a component receives from the bus (the shared context
  or its local reducer), the effect calls \<open>updateCamera\<close> only if
  \<open>cs.setByComponentId\<close> differs from the component's own \<open>componentId\<close>. A state
  that carries the component's own id is never applied again: the only call made is the
  \<open>setProps\<close> that reports the state to the owner.
\<close>

theorem camera_loop_prevention:
  assumes "cameraState s = Some cs"
  shows "(list_ex is_UpdateCamera (new_calls s (cameraStateEffect s))
            \<longrightarrow> setByComponentId cs \<noteq> Some (componentId s))
       \<and> (setByComponentId cs = Some (componentId s)
            \<longrightarrow> new_calls s (cameraStateEffect s)
                = [SetProps (WithCurrentCameraState (props s) cs)])"
  using calls_cameraStateEffect [OF assms]
  by (auto simp: new_calls_def split: if_splits)

theorem camera_loop_prevention_witness:
  "cameraState (example_component\<lparr>cameraReducerState := Some example_state\<rparr>) = Some example_state
   \<and> list_ex is_UpdateCamera
        (new_calls (example_component\<lparr>cameraReducerState := Some example_state\<rparr>)
           (cameraStateEffect (example_component\<lparr>cameraReducerState := Some example_state\<rparr>)))
   \<and> setByComponentId example_state
        \<noteq> Some (componentId (example_component\<lparr>cameraReducerState := Some example_state\<rparr>))
   \<and> cameraState (example_component\<lparr>cameraReducerState := Some own_state\<rparr>) = Some own_state
   \<and> setByComponentId own_state
        = Some (componentId (example_component\<lparr>cameraReducerState := Some own_state\<rparr>))
   \<and> new_calls (example_component\<lparr>cameraReducerState := Some own_state\<rparr>)
        (cameraStateEffect (example_component\<lparr>cameraReducerState := Some own_state\<rparr>))
      = [SetProps (WithCurrentCameraState example_props own_state)]"
proof -
  have own: "setByComponentId own_state
      = Some (componentId (example_component\<lparr>cameraReducerState := Some own_state\<rparr>))"
    by (simp add: own_state_def example_component_def)
  have p: "props (example_component\<lparr>cameraReducerState := Some own_state\<rparr>) = example_props"
    by (simp add: example_component_def)
  show ?thesis
    using camera_loop_prevention [OF example_cameraState, of example_state]
      camera_loop_prevention [OF example_cameraState, of own_state] own p
    by (simp add: example_cameraState example_calls_other)
qed

section \<open>Camera synchronisation: when the effect runs\<close>

lemma cameraState_cameraHook: "cameraState (s\<lparr>cameraHook := h\<rparr>) = cameraState s"
  by (cases "cameraContext s") (simp_all add: cameraState_def)

lemma new_calls_same: "new_calls s (after (Inr s)) = []"
  by (simp add: after_def new_calls_def)

lemma new_calls_refl: "new_calls s s = []"
  by (simp add: new_calls_def)

lemma calls_cameraStateEffect_hook:
  assumes "cameraState s = Some cs"
  shows "calls (cameraStateEffect (s\<lparr>cameraHook := h\<rparr>)) =
     calls s @ SetProps (WithCurrentCameraState (props s) cs) #
       (if setByComponentId cs \<noteq> Some (componentId s)
           \<and> position cs \<noteq> None \<and> quaternion cs \<noteq> None \<and> zoom_truthy (zoom cs)
        then [UpdateCamera (obj_value (the (position cs))) (the (quaternion cs)) (zoom cs)] else [])"
proof -
  have "cameraState (s\<lparr>cameraHook := h\<rparr>) = Some cs"
    using assms by (simp add: cameraState_cameraHook)
  from calls_cameraStateEffect [OF this] show ?thesis by simp
qed

lemma calls_unmount: "calls (unmount s) = calls s @ [Unsubscribe, OnDestroy]"
  by (simp add: unmount_def emit_def)

lemma cameraStateHook_skipped:
  assumes "cameraState s = Some cs" and "cameraHook s = HookSkipped"
  shows "cameraStateHook s = Inl (HookOrderError, unmount s)"
  using assms by (simp add: cameraStateHook_def uncaught_def)

lemma cameraStateHook_same:
  assumes "cameraState s = Some cs"
    and "cameraHook s = HookCalled (map_option obj_ref (position cs))"
  shows "cameraStateHook s = Inr s"
  using assms by (simp add: cameraStateHook_def)

lemma cameraStateHook_runs:
  assumes "cameraState s = Some cs"
    and "cameraHook s = NotRendered
         \<or> (\<exists>d. cameraHook s = HookCalled d \<and> d \<noteq> map_option obj_ref (position cs))"
  shows "cameraStateHook s
         = Inr (cameraStateEffect (s\<lparr>cameraHook := HookCalled (map_option obj_ref (position cs))\<rparr>))"
  using assms by (auto simp: cameraStateHook_def)

text \<open>
  Without a camera state the hook call is left out: nothing is called, unless the call
  was made in the run before, which ends in React's error.
\<close>

lemma cameraStateHook_absent:
  assumes "cameraState s = None"
  shows "cameraStateHook s
         = (case cameraHook s of
              HookCalled d \<Rightarrow> Inl (HookOrderError, unmount s)
            | NotRendered \<Rightarrow> Inr (s\<lparr>cameraHook := HookSkipped\<rparr>)
            | HookSkipped \<Rightarrow> Inr (s\<lparr>cameraHook := HookSkipped\<rparr>))"
  using assms by (simp add: cameraStateHook_def uncaught_def split: hook_slot.splits)

text \<open>
  Whether the effect runs or not, \<open>updateCamera\<close> is called only for a state that
  carries another component's id.
\<close>

lemma cameraStateHook_loop_prevention:
  assumes "cameraState s = Some cs"
    and "list_ex is_UpdateCamera (new_calls s (after (cameraStateHook s)))"
  shows "setByComponentId cs \<noteq> Some (componentId s)"
proof (cases "cameraHook s")
  case NotRendered
  then show ?thesis
    using assms cameraStateHook_runs [OF assms(1)] calls_cameraStateEffect_hook [OF assms(1)]
    by (auto simp: after_def new_calls_def split: if_splits)
next
  case HookSkipped
  then show ?thesis
    using assms cameraStateHook_skipped [OF assms(1)]
    by (simp add: after_def new_calls_def calls_unmount)
next
  case (HookCalled d)
  show ?thesis
  proof (cases "d = map_option obj_ref (position cs)")
    case True
    with HookCalled assms cameraStateHook_same [OF assms(1)] show ?thesis
      by (simp add: new_calls_same)
  next
    case False
    with HookCalled have "cameraHook s = NotRendered
         \<or> (\<exists>d. cameraHook s = HookCalled d \<and> d \<noteq> map_option obj_ref (position cs))"
      by simp
    from cameraStateHook_runs [OF assms(1) this] assms
      calls_cameraStateEffect_hook [OF assms(1)]
    show ?thesis
      by (auto simp: after_def new_calls_def split: if_splits)
  qed
qed

text \<open>
  C9, as stated, fails: a state from the bus is not always handed on to the owner. The
  effect has run on a state without a position; the bus then holds another state
  without a position, written by another component. React sees the same dependency and
  does not run the effect: the component makes no call at all.
\<close>

theorem unchanged_position_is_not_republished:
  "cameraState waiting_component = Some positionless_state
   \<and> setByComponentId positionless_state = Some ''2''
   \<and> componentId waiting_component = ''1''
   \<and> cameraStateHook waiting_component = Inr waiting_component
   \<and> new_calls waiting_component (after (cameraStateHook waiting_component)) = []"
proof -
  have c: "cameraState waiting_component = Some positionless_state"
    by (simp add: cameraState_def waiting_component_def example_component_def)
  have h: "cameraHook waiting_component
      = HookCalled (map_option obj_ref (position positionless_state))"
    by (simp add: waiting_component_def positionless_state_def)
  have i: "setByComponentId positionless_state = Some ''2''"
    "componentId waiting_component = ''1''"
    by (simp_all add: positionless_state_def example_state_def waiting_component_def
        example_component_def)
  show ?thesis
    using cameraStateHook_same [OF c h] c i by (simp add: after_def new_calls_def)
qed

text \<open>
  C9, amended. A camera state from the bus reaches \<open>updateCamera\<close> only if its
  position, quaternion and zoom are all there and truthy; if one is missing, or the zoom
  is 0 (or NaN), \<open>updateCamera\<close> is not called, also for a state written by another
  component. The state is handed to the owner as \<open>currentCameraState\<close> only when the
  effect runs, which is after the first run of the component function and after a run
  in which \<open>cameraState.position\<close> is another object than in the run before: then the
  \<open>setProps\<close> call is the first call made. When the position is the same object, or
  missing as before, the component makes no call. (A run that makes the hook call
  after a run that left it out ends in React's error and the teardown of the component.)
\<close>

theorem camera_state_applied_only_when_complete:
  assumes "cameraState s = Some cs"
  shows "(position cs = None \<or> quaternion cs = None \<or> zoom cs = None
            \<or> zoom cs = Some (Num 0) \<or> zoom cs = Some NaN
          \<longrightarrow> \<not> list_ex is_UpdateCamera (new_calls s (after (cameraStateHook s))))
       \<and> (list_ex is_UpdateCamera (new_calls s (after (cameraStateHook s)))
          \<longrightarrow> position cs \<noteq> None \<and> quaternion cs \<noteq> None \<and> zoom_truthy (zoom cs))
       \<and> (cameraHook s = HookCalled (map_option obj_ref (position cs))
          \<longrightarrow> cameraStateHook s = Inr s \<and> new_calls s (after (cameraStateHook s)) = [])
       \<and> (cameraHook s = NotRendered
            \<or> (\<exists>d. cameraHook s = HookCalled d \<and> d \<noteq> map_option obj_ref (position cs))
          \<longrightarrow> cameraStateHook s = Inr (after (cameraStateHook s))
            \<and> cameraHook (after (cameraStateHook s))
                = HookCalled (map_option obj_ref (position cs))
            \<and> hd (new_calls s (after (cameraStateHook s)))
                = SetProps (WithCurrentCameraState (props s) cs)
            \<and> (position cs = None \<or> quaternion cs = None \<or> zoom cs = None
                  \<or> zoom cs = Some (Num 0) \<or> zoom cs = Some NaN
                \<longrightarrow> new_calls s (after (cameraStateHook s))
                    = [SetProps (WithCurrentCameraState (props s) cs)]))
       \<and> (cameraHook s = HookSkipped
          \<longrightarrow> cameraStateHook s = Inl (HookOrderError, unmount s))"
proof (cases "cameraHook s = HookSkipped")
  case True
  then show ?thesis
    using cameraStateHook_skipped [OF assms True]
    by (simp add: after_def new_calls_def calls_unmount)
next
  case skipped: False
  show ?thesis
  proof (cases "cameraHook s = HookCalled (map_option obj_ref (position cs))")
    case True
    then show ?thesis
      using cameraStateHook_same [OF assms True]
      by (simp add: after_def new_calls_def)
  next
    case False
    with skipped have r: "cameraHook s = NotRendered
         \<or> (\<exists>d. cameraHook s = HookCalled d \<and> d \<noteq> map_option obj_ref (position cs))"
      by (cases "cameraHook s") simp_all
    have h: "cameraHook (cameraStateEffect (s\<lparr>cameraHook := x\<rparr>)) = x" for x
      using assms
      by (simp add: cameraStateEffect_def cameraState_cameraHook Let_def emit_def)
    show ?thesis
      using cameraStateHook_runs [OF assms r] calls_cameraStateEffect_hook [OF assms] False skipped r
      by (auto simp: after_def new_calls_def zoom_truthy_def h split: if_splits)
  qed
qed

lemma example_hook_other:
  "cameraStateHook (example_component\<lparr>cameraReducerState := Some example_state\<rparr>)
   = Inr (cameraStateEffect (example_component\<lparr>cameraReducerState := Some example_state,
        cameraHook := HookCalled (Some 7)\<rparr>))"
proof -
  have n: "cameraHook (example_component\<lparr>cameraReducerState := Some example_state\<rparr>) = NotRendered
      \<or> (\<exists>d. cameraHook (example_component\<lparr>cameraReducerState := Some example_state\<rparr>) = HookCalled d
            \<and> d \<noteq> map_option obj_ref (position example_state))"
    by (simp add: example_component_def)
  show ?thesis
    using cameraStateHook_runs [OF example_cameraState n]
    by (simp add: example_state_def)
qed

theorem camera_state_applied_only_when_complete_witness:
  "cameraState (example_component\<lparr>cameraReducerState := Some zoomless_state\<rparr>) = Some zoomless_state
   \<and> zoom zoomless_state = Some (Num 0)
   \<and> cameraHook (example_component\<lparr>cameraReducerState := Some zoomless_state\<rparr>) = NotRendered
   \<and> setByComponentId zoomless_state
        \<noteq> Some (componentId (example_component\<lparr>cameraReducerState := Some zoomless_state\<rparr>))
   \<and> new_calls (example_component\<lparr>cameraReducerState := Some zoomless_state\<rparr>)
        (after (cameraStateHook (example_component\<lparr>cameraReducerState := Some zoomless_state\<rparr>)))
      = [SetProps (WithCurrentCameraState example_props zoomless_state)]
   \<and> cameraState waiting_component = Some positionless_state
   \<and> cameraHook waiting_component = HookCalled (map_option obj_ref (position positionless_state))
   \<and> new_calls waiting_component (after (cameraStateHook waiting_component)) = []
   \<and> cameraState (example_component\<lparr>cameraReducerState := Some example_state\<rparr>) = Some example_state
   \<and> list_ex is_UpdateCamera
        (new_calls (example_component\<lparr>cameraReducerState := Some example_state\<rparr>)
           (after (cameraStateHook (example_component\<lparr>cameraReducerState := Some example_state\<rparr>))))
   \<and> position example_state \<noteq> None \<and> quaternion example_state \<noteq> None
   \<and> zoom_truthy (zoom example_state)"
proof -
  have z: "zoom zoomless_state = Some (Num 0)"
    and i: "setByComponentId zoomless_state
        \<noteq> Some (componentId (example_component\<lparr>cameraReducerState := Some zoomless_state\<rparr>))"
    and p: "props (example_component\<lparr>cameraReducerState := Some zoomless_state\<rparr>) = example_props"
    and n: "cameraHook (example_component\<lparr>cameraReducerState := Some zoomless_state\<rparr>) = NotRendered"
    by (simp_all add: zoomless_state_def example_state_def example_component_def)
  have c: "cameraState waiting_component = Some positionless_state"
    by (simp add: cameraState_def waiting_component_def example_component_def)
  have h: "cameraHook waiting_component
      = HookCalled (map_option obj_ref (position positionless_state))"
    by (simp add: waiting_component_def positionless_state_def)
  have e: "position example_state \<noteq> None" "quaternion example_state \<noteq> None"
    "zoom_truthy (zoom example_state)"
    by (simp_all add: example_state_def zoom_truthy_def)
  have u: "list_ex is_UpdateCamera
        (new_calls (example_component\<lparr>cameraReducerState := Some example_state\<rparr>)
           (after (cameraStateHook (example_component\<lparr>cameraReducerState := Some example_state\<rparr>))))"
    by (simp add: example_hook_other after_def new_calls_def
        calls_cameraStateEffect_hook [OF example_cameraState])
       (simp add: example_state_def example_component_def zoom_truthy_def)
  show ?thesis
    using camera_state_applied_only_when_complete [OF example_cameraState, of zoomless_state]
      camera_state_applied_only_when_complete [OF c] z i p n c h e u
    by (simp add: example_cameraState new_calls_same)
qed

section \<open>The custom camera state\<close>

lemma calls_customCameraStateEffect:
  assumes "customCameraState (props s) = Some (Obj r c)"
  shows "calls (customCameraStateEffect (s\<lparr>customHook := h\<rparr>))
     = calls s
       @ UpdateCamera (toVector3 (map_option obj_value (position c))) (toQuaternion (quaternion c))
           (zoom c)
       # (case cameraDispatch s of
            None \<Rightarrow> []
          | Some b \<Rightarrow>
              [CameraDispatch b
                 (NEW_POSITION (CameraActionPayload (componentId s)
                    (toVector3 (map_option obj_value (position c))) (toQuaternion (quaternion c))
                    (zoom c)))])
       @ [ConsoleLog [Text ''new props'']]"
  using assms
  by (simp add: customCameraStateEffect_def Let_def cameraDispatch_def emit_def
      split: option.splits)

lemma toVector3_value:
  "toVector3 p = (case p of None \<Rightarrow> Vector3 (Num 0) (Num 0) (Num 0) | Some v \<Rightarrow> v)"
  by (simp add: toVector3_def split: option.splits)

lemma toQuaternion_value:
  "toQuaternion q = (case q of None \<Rightarrow> Quaternion (Num 0) (Num 0) (Num 0) (Num 1) | Some v \<Rightarrow> v)"
  by (simp add: toQuaternion_def split: option.splits)

text \<open>Without the prop, a run of the effect only writes its line to the console.\<close>

lemma customCameraStateHook_absent:
  assumes "customCameraState (props s) = None"
  shows "new_calls s (customCameraStateHook s)
         = (if customHook s = HookCalled None then [] else [ConsoleLog [Text ''new props'']])"
  using assms
  by (simp add: customCameraStateHook_def customCameraStateEffect_def Let_def emit_def
      new_calls_def)

text \<open>
  C7, as stated, fails: inside a camera context that carries no dispatch function the
  custom state is applied, but nothing is sent to the camera bus.
\<close>

theorem custom_state_without_dispatch_is_not_published:
  "customCameraState (props undispatched_component) = Some (Obj 9 custom_state)
   \<and> cameraDispatch undispatched_component = None
   \<and> new_calls undispatched_component (customCameraStateHook undispatched_component)
      = [UpdateCamera (Vector3 (Num 4) (Num 5) (Num 6))
           (Quaternion (Num 1) (Num 0) (Num 0) (Num 0)) (Some (Num 3)),
         ConsoleLog [Text ''new props'']]"
proof -
  have c: "customCameraState (props undispatched_component) = Some (Obj 9 custom_state)"
    and d: "cameraDispatch undispatched_component = None"
    and h: "customHook undispatched_component = NotRendered"
    by (simp_all add: undispatched_component_def example_component_def example_props_def
        cameraDispatch_def)
  have "calls (customCameraStateHook undispatched_component)
      = calls undispatched_component
        @ [UpdateCamera (Vector3 (Num 4) (Num 5) (Num 6))
             (Quaternion (Num 1) (Num 0) (Num 0) (Num 0)) (Some (Num 3)),
           ConsoleLog [Text ''new props'']]"
    by (simp add: customCameraStateHook_def Let_def c h d
        calls_customCameraStateEffect [OF c] toVector3_value toQuaternion_value)
       (simp add: custom_state_def)
  then show ?thesis using c d by (simp add: new_calls_def)
qed

text \<open>
  C7, amended. When the \<open>customCameraState\<close> prop is set to a new object, the effect
  runs once: it makes a \<open>Vector3\<close> of the given position (the zero vector if none is
  given) and a \<open>Quaternion\<close> of the given quaternion (the identity if none is given),
  calls \<open>updateCamera\<close> with them and the zoom exactly once and, if there is a dispatch
  function (the local reducer always has one, a shared context may have none), sends
  the same values to that bus in a \<open>NEW_POSITION\<close> action stamped with the component's
  own \<open>componentId\<close>. In a later run of the component function with the same prop
  object nothing is applied or sent again.
\<close>

theorem customCameraState_applied_once:
  assumes "customCameraState (props s) = Some (Obj r c)"
  shows "(customHook s \<noteq> HookCalled (Some r) \<longrightarrow>
            new_calls s (customCameraStateHook s)
            = UpdateCamera
                (case position c of None \<Rightarrow> Vector3 (Num 0) (Num 0) (Num 0) | Some p \<Rightarrow> obj_value p)
                (case quaternion c of None \<Rightarrow> Quaternion (Num 0) (Num 0) (Num 0) (Num 1) | Some q \<Rightarrow> q)
                (zoom c)
              # (case (case cameraContext s of None \<Rightarrow> Some LocalReducer | Some ctx \<Rightarrow> dispatch ctx) of
                   None \<Rightarrow> []
                 | Some b \<Rightarrow>
                     [CameraDispatch b
                        (NEW_POSITION (CameraActionPayload (componentId s)
                           (case position c of None \<Rightarrow> Vector3 (Num 0) (Num 0) (Num 0)
                            | Some p \<Rightarrow> obj_value p)
                           (case quaternion c of None \<Rightarrow> Quaternion (Num 0) (Num 0) (Num 0) (Num 1)
                            | Some q \<Rightarrow> q)
                           (zoom c)))])
              @ [ConsoleLog [Text ''new props'']]
            \<and> length (filter is_UpdateCamera (new_calls s (customCameraStateHook s))) = 1
            \<and> customHook (customCameraStateHook s) = HookCalled (Some r))
       \<and> (customHook s = HookCalled (Some r) \<longrightarrow>
            customCameraStateHook s = s \<and> new_calls s (customCameraStateHook s) = [])"
proof -
  have h: "customHook (customCameraStateEffect (s\<lparr>customHook := x\<rparr>)) = x" for x
    by (simp add: customCameraStateEffect_def Let_def emit_def split: option.splits)
  show ?thesis
    using assms calls_customCameraStateEffect [OF assms]
    by (auto simp: customCameraStateHook_def Let_def new_calls_def h toVector3_value
        toQuaternion_value cameraDispatch_def split: option.splits)
qed

theorem customCameraState_applied_once_witness:
  "customCameraState (props shared_component) = Some (Obj 9 custom_state)
   \<and> customHook shared_component \<noteq> HookCalled (Some 9)
   \<and> new_calls shared_component (customCameraStateHook shared_component)
      = [UpdateCamera (Vector3 (Num 4) (Num 5) (Num 6))
           (Quaternion (Num 1) (Num 0) (Num 0) (Num 0)) (Some (Num 3)),
         CameraDispatch SharedContext
           (NEW_POSITION (CameraActionPayload ''1'' (Vector3 (Num 4) (Num 5) (Num 6))
              (Quaternion (Num 1) (Num 0) (Num 0) (Num 0)) (Some (Num 3)))),
         ConsoleLog [Text ''new props'']]
   \<and> customCameraState (props (customCameraStateHook shared_component))
      = Some (Obj 9 custom_state)
   \<and> customHook (customCameraStateHook shared_component) = HookCalled (Some 9)
   \<and> new_calls (customCameraStateHook shared_component)
        (customCameraStateHook (customCameraStateHook shared_component)) = []"
proof -
  have c: "customCameraState (props shared_component) = Some (Obj 9 custom_state)"
    and h: "customHook shared_component \<noteq> HookCalled (Some 9)"
    and x: "cameraContext shared_component
        = Some \<lparr>state = Some example_state, dispatch = Some SharedContext\<rparr>"
    and i: "componentId shared_component = ''1''"
    by (simp_all add: shared_component_def example_component_def example_props_def)
  have p: "props (customCameraStateHook shared_component) = props shared_component"
    by (simp add: customCameraStateHook_def customCameraStateEffect_def Let_def emit_def
        split: option.splits)
  have c': "customCameraState (props (customCameraStateHook shared_component))
      = Some (Obj 9 custom_state)"
    using c p by simp
  have v: "position custom_state = Some (Obj 8 (Vector3 (Num 4) (Num 5) (Num 6)))"
    "quaternion custom_state = Some (Quaternion (Num 1) (Num 0) (Num 0) (Num 0))"
    "zoom custom_state = Some (Num 3)"
    by (simp_all add: custom_state_def)
  show ?thesis
    using customCameraState_applied_once [OF c] customCameraState_applied_once [OF c'] c c' h
    by (simp add: x i v new_calls_refl)
qed

section \<open>The scene document\<close>

lemma calls_dataEffect:
  "calls (dataEffect E s) =
     calls s @
       (if \<not> truthy (data (props s)) \<or> \<not> truthy (getprop (data (props s)) ''name'')
           \<or> \<not> truthy (getprop (data (props s)) ''contents'')
        then [ConsoleWarn no_data_warning (data (props s))]
        else [AddToScene (data (props s)) True, ToggleVisibility (toggleVisibility (props s))])"
  by (simp add: dataEffect_def Let_def addToScene_def sceneToggleVisibility_def emit_def)

text \<open>
  C3, as stated, fails: a document that is there and has both a \<open>name\<close> and a
  \<open>contents\<close> field is still skipped when the name is the empty string. Only the
  warning is made; \<open>addToScene\<close> is not called.
\<close>

theorem document_with_empty_name_is_skipped:
  "\<not> absent unnamed_document
   \<and> \<not> absent (getprop unnamed_document ''name'')
   \<and> \<not> absent (getprop unnamed_document ''contents'')
   \<and> new_calls (example_component\<lparr>props := example_props\<lparr>data := unnamed_document\<rparr>\<rparr>)
        (dataEffect example_env
           (example_component\<lparr>props := example_props\<lparr>data := unnamed_document\<rparr>\<rparr>))
      = [ConsoleWarn no_data_warning unnamed_document]"
  by (simp add: absent_def unnamed_document_def new_calls_def calls_dataEffect
      example_component_def example_props_def)

text \<open>
  C3, amended. The guard tests truthiness. If the document, its \<open>name\<close> or its
  \<open>contents\<close> is falsy (absent, \<open>null\<close>, \<open>false\<close>, 0, NaN or the empty string), the
  effect only emits the warning: \<open>addToScene\<close> is not called and the scene graph and
  the render surface stay as they were. Otherwise \<open>addToScene\<close> is called with the
  document (rendering bypassed) and then \<open>toggleVisibility\<close> with the toggle map.
\<close>

theorem document_rebuild_guard:
  "(\<not> truthy (data (props s)) \<or> \<not> truthy (getprop (data (props s)) ''name'')
       \<or> \<not> truthy (getprop (data (props s)) ''contents'')
     \<longrightarrow> new_calls s (dataEffect E s) = [ConsoleWarn no_data_warning (data (props s))]
         \<and> scene (dataEffect E s) = scene s \<and> domElement (dataEffect E s) = domElement s)
   \<and> (truthy (data (props s)) \<and> truthy (getprop (data (props s)) ''name'')
       \<and> truthy (getprop (data (props s)) ''contents'')
     \<longrightarrow> new_calls s (dataEffect E s)
           = [AddToScene (data (props s)) True, ToggleVisibility (toggleVisibility (props s))]
         \<and> scene (dataEffect E s)
           = toggleVisibility_graph E (toggleVisibility (props s))
               (addToScene_graph E (data (props s)) (scene s)))"
  by (simp add: new_calls_def calls_dataEffect)
     (simp add: dataEffect_def Let_def addToScene_def sceneToggleVisibility_def emit_def)

theorem document_rebuild_guard_witness:
  "\<not> truthy (getprop (data (props unnamed_component)) ''name'')
   \<and> new_calls unnamed_component (dataEffect example_env unnamed_component)
       = [ConsoleWarn no_data_warning unnamed_document]
   \<and> scene (dataEffect example_env unnamed_component) = 1
   \<and> truthy (data (props named_component))
   \<and> truthy (getprop (data (props named_component)) ''name'')
   \<and> truthy (getprop (data (props named_component)) ''contents'')
   \<and> new_calls named_component (dataEffect example_env named_component)
       = [AddToScene named_document True, ToggleVisibility (Object [(''atoms'', Number (Num 0))])]
   \<and> scene (dataEffect example_env named_component) = 2"
proof -
  have u: "data (props unnamed_component) = unnamed_document" "scene unnamed_component = 1"
    by (simp_all add: unnamed_component_def example_component_def)
  have n: "data (props named_component) = named_document" "scene named_component = 1"
    "toggleVisibility (props named_component) = Object [(''atoms'', Number (Num 0))]"
    by (simp_all add: named_component_def example_component_def)
  have tu: "\<not> truthy (getprop unnamed_document ''name'')"
    by (simp add: unnamed_document_def)
  have tn: "truthy named_document" "truthy (getprop named_document ''name'')"
    "truthy (getprop named_document ''contents'')"
    by (simp_all add: named_document_def)
  have e: "addToScene_graph example_env = (\<lambda>d g. Suc g)"
    "toggleVisibility_graph example_env = (\<lambda>d g. g)"
    by (simp_all add: example_env_def)
  show ?thesis
    using document_rebuild_guard [of unnamed_component example_env]
      document_rebuild_guard [of named_component example_env]
    by (simp add: u n tu tn e)
qed

section \<open>Export\<close>

lemma setPngData_webgl:
  "renderer s = Some WebGLRenderer \<Longrightarrow>
   setPngData E now s =
     Inr (s\<lparr>pixelRatio := Num 8,
       domElement := Some (Frame (scene s) (Num 8)),
       pending := pending s @ [RestorePixelRatio (pixelRatio s)],
       calls := calls s @ [SetPixelRatio (Num 8), RenderScene,
          SetProps (ImageData (toDataURL E (Some (Frame (scene s) (Num 8)))) now)]\<rparr>)"
  by (simp add: setPngData_def Let_def setPixelRatio_def renderScene_def emit_def schedule_def)

lemma restore_step:
  "renderScene (setPixelRatio r s) =
     s\<lparr>pixelRatio := r, domElement := Some (Frame (scene s) r),
       calls := calls s @ [SetPixelRatio r, RenderScene]\<rparr>"
  by (simp add: setPixelRatio_def renderScene_def emit_def)

lemma example_renderer: "renderer example_component = Some WebGLRenderer"
  by (simp add: example_component_def)

lemma setPngData_error:
  "setPngData E now s = Inl (e, x) \<Longrightarrow> e = TypeError"
  by (auto simp: setPngData_def Let_def split: if_splits option.splits)

lemma setColladaData_error:
  "setColladaData E now s = Inl (e, x) \<Longrightarrow> e = InvalidCharacterError"
  by (auto simp: setColladaData_def Let_def btoa_def split: if_splits sum.splits)

text \<open>
  C4, as stated, fails: an \<open>imageRequest\<close> prop with the filetype \<open>gltf\<close> makes
  \<open>requestImage\<close> throw inside the effect; the error leaves the effect, React
  unmounts the component and the Scene is destroyed: the render surface that was there
  is gone.
\<close>

theorem unknown_filetype_in_effect_tears_down:
  "filetype (imageRequest (props gltf_component)) = Some ''gltf''
   \<and> domElement gltf_component = Some (Frame 1 (Num 1))
   \<and> imageRequestEffect example_env (Num 0) gltf_component
      = Inl (Error ''Unknown filetype.'', unmount gltf_component)
   \<and> new_calls gltf_component (unmount gltf_component) = [Unsubscribe, OnDestroy]
   \<and> renderer (unmount gltf_component) = None
   \<and> domElement (unmount gltf_component) = None"
  by (simp add: imageRequestEffect_def requestImage_def uncaught_def gltf_component_def
      example_component_def example_props_def unmount_def emit_def new_calls_def)

text \<open>
  C4, amended. \<open>requestImage\<close> with a filetype other than \<open>png\<close> and \<open>dae\<close> throws
  the error \<open>Unknown filetype.\<close> before it has called anything: \<open>requestImage\<close>
  itself leaves the component as it was. When the filetype came in the \<open>imageRequest\<close>
  prop, the error leaves the effect and React unmounts the component, which destroys
  the Scene (the effect calls \<open>requestImage\<close> for every filetype that is not empty,
  and not at all otherwise). With \<open>png\<close> it does what \<open>setPngData\<close> does, with \<open>dae\<close> what
  \<open>setColladaData\<close> does, and it never throws \<open>Unknown filetype.\<close> for them.
\<close>

theorem requestImage_unknown_filetype_throws:
  "(ft \<noteq> ''png'' \<and> ft \<noteq> ''dae''
      \<longrightarrow> requestImage E now ft s = Inl (Error ''Unknown filetype.'', s))
   \<and> (ft \<noteq> ''png'' \<and> ft \<noteq> ''dae'' \<and> ft \<noteq> [] \<and> filetype (imageRequest (props s)) = Some ft
      \<longrightarrow> imageRequestEffect E now s = Inl (Error ''Unknown filetype.'', unmount s))
   \<and> (ft \<noteq> [] \<and> filetype (imageRequest (props s)) = Some ft
      \<longrightarrow> imageRequestEffect E now s
          = (case requestImage E now ft s of
               Inl (e, s') \<Rightarrow> Inl (e, unmount s')
             | Inr s' \<Rightarrow> Inr s'))
   \<and> (filetype (imageRequest (props s)) = None \<or> filetype (imageRequest (props s)) = Some []
      \<longrightarrow> imageRequestEffect E now s = Inr s)
   \<and> requestImage E now ''png'' s = setPngData E now s
   \<and> requestImage E now ''dae'' s = setColladaData E now s
   \<and> (\<forall>x. requestImage E now ''png'' s \<noteq> Inl (Error ''Unknown filetype.'', x))
   \<and> (\<forall>x. requestImage E now ''dae'' s \<noteq> Inl (Error ''Unknown filetype.'', x))"
proof -
  have "requestImage E now ''png'' s \<noteq> Inl (Error ''Unknown filetype.'', x)" for x
    using setPngData_error [of E now s "Error ''Unknown filetype.''" x]
    by (auto simp: requestImage_def)
  moreover have "requestImage E now ''dae'' s \<noteq> Inl (Error ''Unknown filetype.'', x)" for x
    using setColladaData_error [of E now s "Error ''Unknown filetype.''" x]
    by (auto simp: requestImage_def)
  ultimately show ?thesis
    by (auto simp: requestImage_def imageRequestEffect_def uncaught_def split: sum.splits)
qed

theorem requestImage_unknown_filetype_throws_witness:
  "''gltf'' \<noteq> ''png'' \<and> ''gltf'' \<noteq> ''dae'' \<and> ''gltf'' \<noteq> []
   \<and> filetype (imageRequest (props gltf_component)) = Some ''gltf''
   \<and> requestImage example_env (Num 0) ''gltf'' gltf_component
       = Inl (Error ''Unknown filetype.'', gltf_component)
   \<and> imageRequestEffect example_env (Num 0) gltf_component
       = Inl (Error ''Unknown filetype.'', unmount gltf_component)
   \<and> filetype (imageRequest (props example_component)) = None
   \<and> imageRequestEffect example_env (Num 0) example_component = Inr example_component"
proof -
  have f: "filetype (imageRequest (props gltf_component)) = Some ''gltf''"
    by (simp add: gltf_component_def example_component_def example_props_def)
  have n: "filetype (imageRequest (props example_component)) = None"
    by (simp add: example_component_def example_props_def)
  show ?thesis
    using requestImage_unknown_filetype_throws [of "''gltf''" example_env "Num 0" gltf_component]
      requestImage_unknown_filetype_throws [of "''gltf''" example_env "Num 0" example_component] f n
    by simp
qed

text \<open>
  A \<open>png\<close> export on the WebGL renderer that starts while no restore step is pending:
  the deferred step sets the pixel ratio back to the one read at the start and renders
  again.
\<close>

lemma single_png_export_restores_pixel_ratio:
  assumes "renderer s = Some WebGLRenderer" and "pending s = []"
  shows "pixelRatio (after (setPngData E now s)) = Num 8
       \<and> pending (after (setPngData E now s)) = [RestorePixelRatio (pixelRatio s)]
       \<and> pixelRatio (after (fire later (after (setPngData E now s)))) = pixelRatio s
       \<and> domElement (after (fire later (after (setPngData E now s))))
           = Some (Frame (scene s) (pixelRatio s))"
  using assms
  by (simp add: setPngData_webgl [OF assms(1)] after_def fire_def restore_step)

lemma two_exports_eq:
  "two_exports =
     example_component\<lparr>pixelRatio := Num 8,
       domElement := Some (Frame (Suc 0) (Num 8)),
       pending := [RestorePixelRatio (Num 1), RestorePixelRatio (Num 8)],
       calls := [SetPixelRatio (Num 8), RenderScene,
          SetProps (ImageData ''png-at-8'' (Num 5)),
          SetPixelRatio (Num 8), RenderScene,
          SetProps (ImageData ''png-at-8'' (Num 5))]\<rparr>"
proof -
  have a: "after (requestImage example_env (Num 5) ''png'' example_component)
      = example_component\<lparr>pixelRatio := Num 8,
       domElement := Some (Frame (Suc 0) (Num 8)),
       pending := [RestorePixelRatio (Num 1)],
       calls := [SetPixelRatio (Num 8), RenderScene,
          SetProps (ImageData ''png-at-8'' (Num 5))]\<rparr>"
    by (simp add: requestImage_def setPngData_webgl [OF example_renderer] after_def)
       (simp add: example_component_def example_env_def)
  have r: "renderer (example_component\<lparr>pixelRatio := Num 8,
       domElement := Some (Frame (Suc 0) (Num 8)),
       pending := [RestorePixelRatio (Num 1)],
       calls := [SetPixelRatio (Num 8), RenderScene,
          SetProps (ImageData ''png-at-8'' (Num 5))]\<rparr>) = Some WebGLRenderer"
    by (simp add: example_component_def)
  show ?thesis
    unfolding two_exports_def a
    by (simp add: requestImage_def setPngData_webgl [OF r] after_def)
       (simp add: example_component_def example_env_def)
qed

text \<open>
  C5 fails on the code: a second \<open>png\<close> export that starts before the restore step of
  the first has run reads 8 as the ratio to restore. After both restore steps have run,
  the renderer that had pixel ratio 1 has pixel ratio 8, and the surface shows the scene
  drawn at 8.
\<close>

theorem overlapping_png_exports_leave_ratio_8:
  "renderer example_component = Some WebGLRenderer
   \<and> pixelRatio example_component = Num 1
   \<and> pending two_exports = [RestorePixelRatio (Num 1), RestorePixelRatio (Num 8)]
   \<and> pending two_exports_restored = []
   \<and> pixelRatio two_exports_restored = Num 8
   \<and> domElement two_exports_restored = Some (Frame 1 (Num 8))"
  by (simp add: two_exports_restored_def two_exports_eq fire_def after_def restore_step)
     (simp add: example_component_def fire_def after_def restore_step)

lemma setColladaData_cases:
  "setColladaData E now s =
     (if list_all (\<lambda>c. c \<le> 255) (colladaParse E (scene s))
      then Inr (s\<lparr>pending := pending s @ [ColladaDone (colladaParse E (scene s))],
             calls := calls s @
               [SetProps (ImageData (''data:text/plain;base64,''
                   @ base64 E (colladaParse E (scene s))) now)]\<rparr>)
      else Inl (InvalidCharacterError,
             s\<lparr>pending := pending s @ [ColladaDone (colladaParse E (scene s))]\<rparr>))"
  by (simp add: setColladaData_def Let_def btoa_def emit_def schedule_def)

text \<open>
  C6 fails on the code: when the text the Collada exporter writes for the live graph
  holds a character above code 255 (here the letter alpha, 945), \<open>btoa\<close> throws an
  \<open>InvalidCharacterError\<close> and \<open>setProps\<close> is never called: nothing is delivered. For
  a text within the range the export delivers the prefixed base64 text and the
  timestamp.
\<close>

theorem collada_export_of_wide_character_throws:
  "colladaParse example_env (scene alpha_component) = [60, 945, 62]
   \<and> setColladaData example_env (Num 7) alpha_component
      = Inl (InvalidCharacterError,
          alpha_component\<lparr>pending := [ColladaDone [60, 945, 62]]\<rparr>)
   \<and> new_calls alpha_component (after (setColladaData example_env (Num 7) alpha_component)) = []
   \<and> colladaParse example_env (scene example_component) = [115, 99, 101, 110, 101]
   \<and> new_calls example_component (after (setColladaData example_env (Num 7) example_component))
      = [SetProps (ImageData ''data:text/plain;base64,c2NlbmU='' (Num 7))]"
proof -
  have a: "colladaParse example_env (scene alpha_component) = [60, 945, 62]"
    "pending alpha_component = []"
    by (simp_all add: alpha_component_def example_component_def example_env_def)
  have e: "colladaParse example_env (scene example_component) = [115, 99, 101, 110, 101]"
    "base64 example_env [115, 99, 101, 110, 101] = ''c2NlbmU=''"
    by (simp_all add: example_component_def example_env_def)
  show ?thesis
    by (simp add: setColladaData_cases a e after_def new_calls_def)
qed

section \<open>The animation slider\<close>



section \<open>Teardown\<close>

lemma exported_then_unmounted_eq:
  "exported_then_unmounted =
     example_component\<lparr>pixelRatio := Num 8,
       renderer := None, domElement := None, subscribed := False,
       pending := [RestorePixelRatio (Num 1)],
       calls := [SetPixelRatio (Num 8), RenderScene,
          SetProps (ImageData ''png-at-8'' (Num 5)), Unsubscribe, OnDestroy]\<rparr>"
  by (simp add: exported_then_unmounted_def requestImage_def
      setPngData_webgl [OF example_renderer] after_def unmount_def emit_def)
     (simp add: example_component_def example_env_def)

text \<open>
  C2, as stated, fails: after a \<open>png\<close> export the component is unmounted. The restore
  step is still pending after the teardown, and when the host runs it, its body is
  entered without any test and throws a \<open>TypeError\<close> at the renderer that the
  teardown released.
\<close>

theorem restore_step_runs_after_teardown:
  "renderer exported_then_unmounted = None
   \<and> \<not> subscribed exported_then_unmounted
   \<and> pending exported_then_unmounted = [RestorePixelRatio (Num 1)]
   \<and> fire (Num 6) exported_then_unmounted
      = Inl (TypeError, exported_then_unmounted\<lparr>pending := []\<rparr>)"
  by (simp add: exported_then_unmounted_eq fire_def)

text \<open>
  C2, amended. Teardown unsubscribes from the download event and then calls
  \<open>Scene.onDestroy\<close>; later download events no longer reach the component. The
  pending export callbacks are neither cancelled nor guarded by a liveness check: they
  are still pending after the teardown and the host still runs them. The restore step
  then throws a \<open>TypeError\<close> at the released renderer, and the callback of the image
  converter still calls \<open>setProps\<close>.
\<close>

theorem teardown_leaves_pending_callbacks:
  "new_calls s (unmount s) = [Unsubscribe, OnDestroy]
   \<and> \<not> subscribed (unmount s)
   \<and> renderer (unmount s) = None
   \<and> downloadEvent E now ft (unmount s) = Inr (unmount s)
   \<and> pending (unmount s) = pending s
   \<and> (pending s = t # ts
        \<longrightarrow> fire later (unmount s) = run_task later t ((unmount s)\<lparr>pending := ts\<rparr>))
   \<and> run_task later (RestorePixelRatio r) (unmount s) = Inl (TypeError, unmount s)
   \<and> run_task later (DataUrlCallback d) (unmount s)
      = Inr (emit [SetProps (ImageData d later)] (unmount s))"
  by (simp add: unmount_def emit_def new_calls_def downloadEvent_def fire_def)

theorem teardown_leaves_pending_callbacks_witness:
  "pending (after (requestImage example_env (Num 5) ''png'' example_component))
     = [RestorePixelRatio (Num 1)]
   \<and> pending exported_then_unmounted = [RestorePixelRatio (Num 1)]
   \<and> fire (Num 6) exported_then_unmounted
      = Inl (TypeError, exported_then_unmounted\<lparr>pending := []\<rparr>)"
proof -
  have p: "pending (after (requestImage example_env (Num 5) ''png'' example_component))
     = [RestorePixelRatio (Num 1)]"
    by (simp add: requestImage_def setPngData_webgl [OF example_renderer] after_def)
       (simp add: example_component_def)
  show ?thesis
    using teardown_leaves_pending_callbacks
      [of "after (requestImage example_env (Num 5) ''png'' example_component)"
          example_env "Num 6" "''png''" "RestorePixelRatio (Num 1)" "[]" "Num 6" "Num 1" "''x''"] p
    by (simp add: exported_then_unmounted_def)
qed

section \<open>Distinct component identities\<close>

lemma digit_inj: "a < 10 \<Longrightarrow> b < 10 \<Longrightarrow> digit a = digit b \<Longrightarrow> a = b"
  by (simp add: digit_def char_of_eq_iff take_bit_eq_mod)

lemma toString_nonempty: "toString n \<noteq> []"
  by (subst toString.simps) simp

lemma toString_inj: "toString n = toString m \<Longrightarrow> n = m"
proof (induction n arbitrary: m rule: toString.induct)
  case (1 n)
  show ?case
  proof (cases "n < 10")
    case True
    show ?thesis
    proof (cases "m < 10")
      case m: True
      from 1(2) True m have "digit n = digit m"
        by (subst (asm) toString.simps, subst (asm) (2) toString.simps, simp)
      then show ?thesis using True m digit_inj by blast
    next
      case m: False
      from 1(2) True m have "[digit n] = toString (m div 10) @ [digit (m mod 10)]"
        by (subst (asm) toString.simps, subst (asm) (2) toString.simps, simp)
      then show ?thesis using toString_nonempty [of "m div 10"] by auto
    qed
  next
    case False
    show ?thesis
    proof (cases "m < 10")
      case m: True
      from 1(2) False m have "toString (n div 10) @ [digit (n mod 10)] = [digit m]"
        by (subst (asm) toString.simps, subst (asm) (2) toString.simps, simp)
      then show ?thesis using toString_nonempty [of "n div 10"] by auto
    next
      case m: False
      from 1(2) False m
      have "toString (n div 10) @ [digit (n mod 10)] = toString (m div 10) @ [digit (m mod 10)]"
        by (subst (asm) toString.simps, subst (asm) (2) toString.simps, simp)
      then have a: "toString (n div 10) = toString (m div 10)"
        and b: "digit (n mod 10) = digit (m mod 10)"
        by simp_all
      from 1(1)[OF False a] have "n div 10 = m div 10" .
      moreover from b have "n mod 10 = m mod 10" by (intro digit_inj) simp_all
      ultimately show ?thesis by (metis div_mult_mod_eq)
    qed
  qed
qed

lemma run_events_snoc: "run_events (evs @ [e]) = react_step (run_events evs) e"
  by (simp add: run_events_def)

lemma counter_mono: "ID_GENERATOR m \<le> ID_GENERATOR (react_step m e)"
  by (cases e) (simp_all add: render_component_def unmount_component_def pre_increment_def Let_def)

lemma counter_step:
  "ID_GENERATOR (react_step m (Render k)) < 2 ^ 53 \<Longrightarrow>
   ID_GENERATOR (react_step m (Render k)) = Suc (ID_GENERATOR m)"
  by (simp add: render_component_def pre_increment_def Let_def split: if_splits)

lemma ids_step:
  assumes d: "ids_distinct m" and f: "ids_from_counter m"
    and b: "ID_GENERATOR (react_step m e) < 2 ^ 53"
  shows "ids_distinct (react_step m e) \<and> ids_from_counter (react_step m e)"
proof (cases e)
  case (Unmount k)
  with d f show ?thesis
    by (auto simp: ids_distinct_def ids_from_counter_def unmount_component_def)
next
  case (Render k)
  have c: "ID_GENERATOR (react_step m e) = Suc (ID_GENERATOR m)"
    using b counter_step Render by simp
  show ?thesis
  proof (cases "componentIds m k")
    case (Some r)
    then have "componentIds (react_step m e) = componentIds m"
      using Render by (simp add: render_component_def Let_def)
    with d f c show ?thesis
      by (simp add: ids_distinct_def ids_from_counter_def) (metis le_Suc_eq)
  next
    case None
    have p: "pre_increment (ID_GENERATOR m) = Suc (ID_GENERATOR m)"
      using c Render by (simp add: render_component_def Let_def)
    have ids: "componentIds (react_step m e)
        = (componentIds m)(k := Some (toString (Suc (ID_GENERATOR m))))"
      using Render None p by (simp add: render_component_def Let_def)
    have fresh: "componentIds m j \<noteq> Some (toString (Suc (ID_GENERATOR m)))" for j
    proof
      assume "componentIds m j = Some (toString (Suc (ID_GENERATOR m)))"
      with f obtain n where "n \<le> ID_GENERATOR m" "toString (Suc (ID_GENERATOR m)) = toString n"
        by (auto simp: ids_from_counter_def)
      then show False using toString_inj by fastforce
    qed
    have "ids_distinct (react_step m e)"
      unfolding ids_distinct_def ids
    proof (intro allI impI)
      fix i j
      assume ne: "i \<noteq> j"
        and live: "((componentIds m)(k := Some (toString (Suc (ID_GENERATOR m))))) i \<noteq> None"
      show "((componentIds m)(k := Some (toString (Suc (ID_GENERATOR m))))) i
          \<noteq> ((componentIds m)(k := Some (toString (Suc (ID_GENERATOR m))))) j"
      proof (cases "i = k")
        case True
        with ne fresh [of j] show ?thesis by (simp add: eq_commute)
      next
        case i: False
        show ?thesis
        proof (cases "j = k")
          case True
          with i fresh [of i] show ?thesis by simp
        next
          case False
          with i ne live d show ?thesis by (simp add: ids_distinct_def)
        qed
      qed
    qed
    moreover have "ids_from_counter (react_step m e)"
      unfolding ids_from_counter_def ids c
      using f by (auto simp: ids_from_counter_def) (metis le_Suc_eq)
    ultimately show ?thesis by simp
  qed
qed

lemma ids_invariant:
  "ID_GENERATOR (run_events evs) < 2 ^ 53 \<Longrightarrow>
   ids_distinct (run_events evs) \<and> ids_from_counter (run_events evs)"
proof (induction evs rule: rev_induct)
  case Nil
  show ?case
    by (simp add: run_events_def initial_module_def ids_distinct_def ids_from_counter_def)
next
  case (snoc e evs)
  have "ID_GENERATOR (run_events evs) \<le> ID_GENERATOR (run_events (evs @ [e]))"
    by (simp add: run_events_snoc counter_mono)
  with snoc.prems have "ID_GENERATOR (run_events evs) < 2 ^ 53" by simp
  with snoc.IH have "ids_distinct (run_events evs)" "ids_from_counter (run_events evs)"
    by simp_all
  then show ?case
    using ids_step snoc.prems by (simp add: run_events_snoc)
qed

lemma renders_snoc:
  "renders (evs @ [e]) = renders evs + (case e of Render k \<Rightarrow> 1 | Unmount k \<Rightarrow> 0)"
  by (induction evs rule: renders.induct) (simp_all split: react_event.splits)

lemma counter_counts_renders:
  "ID_GENERATOR (run_events evs) < 2 ^ 53 \<Longrightarrow> ID_GENERATOR (run_events evs) = renders evs"
proof (induction evs rule: rev_induct)
  case Nil
  show ?case by (simp add: run_events_def initial_module_def)
next
  case (snoc e evs)
  have "ID_GENERATOR (run_events evs) \<le> ID_GENERATOR (run_events (evs @ [e]))"
    by (simp add: run_events_snoc counter_mono)
  with snoc have ih: "ID_GENERATOR (run_events evs) = renders evs" by simp
  show ?case
  proof (cases e)
    case (Render k)
    with snoc.prems ih show ?thesis
      using counter_step [of "run_events evs" k] by (simp add: run_events_snoc renders_snoc)
  next
    case (Unmount k)
    with ih show ?thesis
      by (simp add: run_events_snoc renders_snoc unmount_component_def)
  qed
qed

lemma digit_values: "digit (Suc 0) = CHR ''1''" "digit (Suc (Suc (Suc 0))) = CHR ''3''"
  by code_simp+

lemma example_run:
  "ID_GENERATOR (run_events example_events) = 3"
  "componentIds (run_events example_events) 0 = Some ''1''"
  "componentIds (run_events example_events) (Suc 0) = Some ''3''"
  by (simp_all add: example_events_def run_events_def initial_module_def render_component_def
      pre_increment_def Let_def toString.simps digit_values)

text \<open>
  C10, as stated, fails: the counter is not advanced once per mount. After two mounts,
  with one more render of the first component in between, the counter stands at 3 and
  the second component's id is \<open>3\<close>, not \<open>2\<close>.
\<close>

theorem counter_advances_on_every_render:
  "mounts initial_module example_events = 2
   \<and> ID_GENERATOR (run_events example_events) = 3
   \<and> componentIds (run_events example_events) 1 = Some ''3''"
  by (simp add: example_run)
     (simp add: example_events_def initial_module_def render_component_def
      pre_increment_def Let_def)

text \<open>
  C10, amended. The counter is advanced on every run of the component function, and a
  component keeps the decimal string of the value the counter had at its first run.
  While the counter is below \<open>2 ^ 53\<close>, no two mounted components have the same
  \<open>componentId\<close>, every id is the decimal string of a value between 1 and the counter,
  and the counter equals the number of runs so far.
\<close>

theorem componentIds_distinct:
  assumes "ID_GENERATOR (run_events evs) < 2 ^ 53"
  shows "ids_distinct (run_events evs)
       \<and> ids_from_counter (run_events evs)
       \<and> ID_GENERATOR (run_events evs) = renders evs"
  using ids_invariant [OF assms] counter_counts_renders [OF assms] by simp

theorem componentIds_distinct_witness:
  "ID_GENERATOR (run_events example_events) < 2 ^ 53
   \<and> ids_distinct (run_events example_events)
   \<and> componentIds (run_events example_events) 0 = Some ''1''
   \<and> componentIds (run_events example_events) 1 = Some ''3''
   \<and> renders example_events = 3"
proof -
  have b: "ID_GENERATOR (run_events example_events) < 2 ^ 53"
    by (simp add: example_run)
  show ?thesis
    using componentIds_distinct [OF b] b by (simp add: example_run)
qed

end
